theory Spec2Isabelle
  imports Complex_Main "HOL-Library.Sublist"
begin

section \<open>JavaScript strings and numbers\<close>

text \<open>
  A JavaScript string is modelled as the list of bytes of its UTF-8 encoding
  (\<^typ>\<open>string\<close>), so an ASCII character is one \<^typ>\<open>char\<close> and a character
  above U+007F is the two to four bytes of its encoding.  A missing or empty string
  property is the empty list wherever the source only tests it for truthiness.
\<close>

subsection \<open>\<open>String.prototype.trim\<close>\<close>

text \<open>
  The white space and line terminator characters that \<open>trim\<close> removes, each as
  its UTF-8 bytes: U+0009 to U+000D, U+0020, U+00A0, U+1680, U+2000 to U+200A,
  U+2028, U+2029, U+202F, U+205F, U+3000 and U+FEFF.
\<close>

definition whitespace :: "string list" where
  "whitespace =
     [[CHR 0x09], [CHR 0x0A], [CHR 0x0B], [CHR 0x0C], [CHR 0x0D], [CHR 0x20],
      [CHR 0xC2, CHR 0xA0],
      [CHR 0xE1, CHR 0x9A, CHR 0x80],
      [CHR 0xE2, CHR 0x80, CHR 0x80], [CHR 0xE2, CHR 0x80, CHR 0x81],
      [CHR 0xE2, CHR 0x80, CHR 0x82], [CHR 0xE2, CHR 0x80, CHR 0x83],
      [CHR 0xE2, CHR 0x80, CHR 0x84], [CHR 0xE2, CHR 0x80, CHR 0x85],
      [CHR 0xE2, CHR 0x80, CHR 0x86], [CHR 0xE2, CHR 0x80, CHR 0x87],
      [CHR 0xE2, CHR 0x80, CHR 0x88], [CHR 0xE2, CHR 0x80, CHR 0x89],
      [CHR 0xE2, CHR 0x80, CHR 0x8A],
      [CHR 0xE2, CHR 0x80, CHR 0xA8], [CHR 0xE2, CHR 0x80, CHR 0xA9],
      [CHR 0xE2, CHR 0x80, CHR 0xAF],
      [CHR 0xE2, CHR 0x81, CHR 0x9F],
      [CHR 0xE3, CHR 0x80, CHR 0x80],
      [CHR 0xEF, CHR 0xBB, CHR 0xBF]]"

lemma whitespace_nonempty: "w \<in> set whitespace \<Longrightarrow> w \<noteq> []"
  by (auto simp: whitespace_def)

function trimStart :: "string \<Rightarrow> string" where
  "trimStart s =
     (case find (\<lambda>w. prefix w s) whitespace of
        None \<Rightarrow> s
      | Some w \<Rightarrow> trimStart (drop (length w) s))"
  by pat_completeness auto
termination
proof (relation "measure length")
  fix s w
  assume "find (\<lambda>w. prefix w s) whitespace = Some w"
  then have "w \<in> set whitespace" and "prefix w s"
    by (auto simp: find_Some_iff)
  then have "w \<noteq> []" and "length w \<le> length s"
    by (auto simp: whitespace_nonempty prefix_def)
  then show "(drop (length w) s, s) \<in> measure length"
    by (cases w) auto
qed simp

function trimEnd :: "string \<Rightarrow> string" where
  "trimEnd s =
     (case find (\<lambda>w. suffix w s) whitespace of
        None \<Rightarrow> s
      | Some w \<Rightarrow> trimEnd (take (length s - length w) s))"
  by pat_completeness auto
termination
proof (relation "measure length")
  fix s w
  assume "find (\<lambda>w. suffix w s) whitespace = Some w"
  then have "w \<in> set whitespace" and "suffix w s"
    by (auto simp: find_Some_iff)
  then have "w \<noteq> []" and "length w \<le> length s"
    by (auto simp: whitespace_nonempty suffix_def)
  then show "(take (length s - length w) s, s) \<in> measure length"
    by (cases w) auto
qed simp

declare trimStart.simps [simp del] trimEnd.simps [simp del]

definition trim :: "string \<Rightarrow> string" where
  "trim s = trimEnd (trimStart s)"

subsection \<open>\<open>toUpperCase\<close>, \<open>toLowerCase\<close>\<close>

text \<open>
  Case conversion is modelled on the ASCII letters; bytes of characters outside
  ASCII are left as they are.  No character outside ASCII has \<open>G\<close>, \<open>E\<close> or
  \<open>T\<close> as its upper case, so the comparison with \<open>"GET"\<close> is not affected.
\<close>

definition lower_letters :: string where
  "lower_letters = ''abcdefghijklmnopqrstuvwxyz''"

definition upper_letters :: string where
  "upper_letters = ''ABCDEFGHIJKLMNOPQRSTUVWXYZ''"

definition toUpperCase :: "string \<Rightarrow> string" where
  "toUpperCase s =
     map (\<lambda>c. case map_of (zip lower_letters upper_letters) c of
                 Some u \<Rightarrow> u | None \<Rightarrow> c) s"

definition toLowerCase :: "string \<Rightarrow> string" where
  "toLowerCase s =
     map (\<lambda>c. case map_of (zip upper_letters lower_letters) c of
                 Some l \<Rightarrow> l | None \<Rightarrow> c) s"

subsection \<open>Numbers\<close>

text \<open>
  A JavaScript number is a finite value, \<open>NaN\<close> or an infinity.  Status codes
  and millisecond counts are integers; a number of seconds may be fractional.
  A numeric property of a stored test case holds \<open>undefined\<close>, \<open>null\<close> or a
  number.
\<close>

datatype 'n jsnumber = Fin 'n | NaN | PosInfinity | NegInfinity

datatype 'n jsfield = Undefined | Null | Num "'n jsnumber"

text \<open>\<open>Number(value)\<close>: \<open>undefined\<close> becomes \<open>NaN\<close>, \<open>null\<close> becomes \<open>0\<close>.\<close>

fun Number :: "'n::zero jsfield \<Rightarrow> 'n jsnumber" where
  "Number Undefined = NaN"
| "Number Null = Fin 0"
| "Number (Num x) = x"

text \<open>
  \<^verbatim>\<open>const asNumber = value => {
  const numeric = Number(value);
  return Number.isFinite(numeric) ? numeric : null;
};\<close>
\<close>

definition asNumber :: "'n::zero jsfield \<Rightarrow> 'n option" where
  "asNumber v = (let numeric = Number v in
                 case numeric of Fin x \<Rightarrow> Some x | _ \<Rightarrow> None)"

text \<open>
  Decimal notation of an integer, as \<open>String(n)\<close> and a template literal print
  it (for integers below \<open>10^21\<close> in absolute value, where JavaScript does not
  switch to exponent notation).
\<close>

definition digit :: "nat \<Rightarrow> char" where
  "digit d = ''0123456789'' ! d"

fun show_nat :: "nat \<Rightarrow> string" where
  "show_nat n = (if n < 10 then [digit n] else show_nat (n div 10) @ [digit (n mod 10)])"

declare show_nat.simps [simp del]

definition show_int :: "int \<Rightarrow> string" where
  "show_int i = (if i < 0 then ''-'' @ show_nat (nat (- i)) else show_nat (nat i))"

section \<open>The test case and the request\<close>

text \<open>
  The \<open>auth\<close> object of a test case.  Every property is only tested for
  truthiness, compared with a literal or trimmed, so an absent property is the
  empty string.
\<close>

record auth =
  token :: string
  username :: string
  password :: string
  apiKey :: string
  apiKeyLocation :: string
  apiKeyName :: string

text \<open>
  A test case: \<open>tc_x\<close> is its property \<open>x\<close>.  \<open>tc_headers\<close> and \<open>tc_formData\<close>
  are the lists of \<open>{key, value}\<close> entries.
\<close>

record testcase =
  tc_id :: string
  tc_caseName :: string
  tc_method :: string
  tc_url :: string
  tc_headers :: "(string \<times> string) list"
  tc_authType :: string
  tc_auth :: auth
  tc_bodyType :: string
  tc_rawBody :: string
  tc_formData :: "(string \<times> string) list"
  tc_expectedStatus :: "int jsfield"
  tc_maxResponseTime :: "rat jsfield"

text \<open>
  What \<open>buildBody\<close> puts in \<open>data\<close>: the value \<open>JSON.parse\<close> returned, a text,
  a \<open>FormData\<close> with its appended entries in order, or the plain object of the
  fallback.  \<open>undefined\<close> is \<open>None\<close>.  \<open>bodyWarning\<close> is the property \<open>warning\<close>
  of the object \<open>buildBody\<close> returns.
\<close>

datatype 'j body =
    Parsed 'j
  | Text string
  | FormData "(string \<times> string) list"
  | PlainObject "string \<rightharpoonup> string"

record 'j built_body =
  data :: "'j body option"
  isFormData :: bool
  bodyWarning :: "string option"

text \<open>
  \<^verbatim>\<open>const ensureTrimmed = value => (typeof value === "string" ? value.trim() : value);\<close>
  on a string.
\<close>

definition ensureTrimmed :: "string \<Rightarrow> string" where
  "ensureTrimmed v = trim v"

text \<open>
  An object filled by \<open>obj[key] = value\<close> for the entries with a truthy key, a
  later entry overwriting an earlier one with the same key.
\<close>

definition objectOf :: "(string \<times> string) list \<Rightarrow> (string \<rightharpoonup> string)" where
  "objectOf entries =
     fold (\<lambda>(k, v) obj. if k = [] then obj else obj(k \<mapsto> v)) entries Map.empty"

definition no_body :: "'j built_body" where
  "no_body = \<lparr>data = None, isFormData = False, bodyWarning = None\<rparr>"

text \<open>
  \<^verbatim>\<open>const buildBody = testCase => {
  const method = (testCase.method || "GET").toUpperCase();
  if (method === "GET") {
    return { data: undefined, isFormData: false, warning: null };
  }
  if (testCase.bodyType === "raw") {
    const raw = ensureTrimmed(testCase.rawBody ?? "");
    if (!raw) {
      return { data: undefined, isFormData: false, warning: null };
    }
    try {
      return { data: JSON.parse(raw), isFormData: false, warning: null };
    } catch {
      return { data: testCase.rawBody ?? raw, isFormData: false,
               warning: "Raw body is not valid JSON; sending as text." };
    }
  }
  if (testCase.bodyType === "form-data") {
    const fd = typeof FormData !== "undefined" ? new FormData() : null;
    let hasEntries = false;
    (testCase.formData || []).forEach(({ key, value }) => {
      if (!key) return;
      hasEntries = true;
      if (fd) { fd.append(key, value); }
    });
    if (!hasEntries) {
      return { data: undefined, isFormData: false, warning: null };
    }
    if (fd) {
      return { data: fd, isFormData: true, warning: null };
    }
    const obj = {};
    (testCase.formData || []).forEach(({ key, value }) => {
      if (!key) return;
      obj[key] = value;
    });
    return { data: obj, isFormData: false, warning: null };
  }
  return { data: undefined, isFormData: false, warning: null };
};\<close>
  \<open>parse\<close> is \<open>JSON.parse\<close>, \<open>None\<close> where it throws; \<open>formDataExists\<close> says
  whether the global \<open>FormData\<close> exists.
\<close>

definition buildBody ::
  "(string \<Rightarrow> 'j option) \<Rightarrow> bool \<Rightarrow> testcase \<Rightarrow> 'j built_body" where
  "buildBody parse formDataExists testCase =
     (let method = toUpperCase (if tc_method testCase = [] then ''GET'' else tc_method testCase) in
      if method = ''GET'' then no_body
      else if tc_bodyType testCase = ''raw'' then
        (let raw = ensureTrimmed (tc_rawBody testCase) in
         if raw = [] then no_body
         else case parse raw of
           Some v \<Rightarrow> \<lparr>data = Some (Parsed v), isFormData = False, bodyWarning = None\<rparr>
         | None \<Rightarrow> \<lparr>data = Some (Text (tc_rawBody testCase)), isFormData = False,
                     bodyWarning = Some ''Raw body is not valid JSON; sending as text.''\<rparr>)
      else if tc_bodyType testCase = ''form-data'' then
        (let entries = filter (\<lambda>(k, v). k \<noteq> []) (tc_formData testCase);
             hasEntries = (entries \<noteq> []) in
         if \<not> hasEntries then no_body
         else if formDataExists then
           \<lparr>data = Some (FormData entries), isFormData = True, bodyWarning = None\<rparr>
         else
           \<lparr>data = Some (PlainObject (objectOf (tc_formData testCase))), isFormData = False,
            bodyWarning = None\<rparr>)
      else no_body)"

subsection \<open>\<open>btoa\<close> and \<open>encodeURIComponent\<close>\<close>

text \<open>
  The exceptions of the module: the \<open>Error\<close> it throws itself, with its message,
  and the \<open>InvalidCharacterError\<close> that \<open>btoa\<close> throws on a string with a
  character above U+00FF.
\<close>

datatype js_error = Error string | InvalidCharacterError

text \<open>
  The characters of a string as numbers below 256, if it has no other: an ASCII
  byte, or the two bytes \<open>C2 xx\<close> or \<open>C3 xx\<close> that encode U+0080 to U+00FF.
\<close>

fun latin1 :: "string \<Rightarrow> nat list option" where
  "latin1 [] = Some []"
| "latin1 [c] = (if (of_char c :: nat) < 0x80 then Some [of_char c] else None)"
| "latin1 (c # d # ds) =
     (if (of_char c :: nat) < 0x80 then map_option ((#) (of_char c)) (latin1 (d # ds))
      else if (of_char c :: nat) \<in> {0xC2, 0xC3} \<and> (of_char d :: nat) \<in> {0x80 ..< 0xC0}
        then map_option ((#) ((of_char c - 0xC0) * 64 + (of_char d - 0x80))) (latin1 ds)
      else None)"

definition b64 :: "nat \<Rightarrow> char" where
  "b64 n = ''ABCDEFGHIJKLMNOPQRSTUVWXYZabcdefghijklmnopqrstuvwxyz0123456789+/'' ! n"

fun base64 :: "nat list \<Rightarrow> string" where
  "base64 [] = []"
| "base64 [a] = [b64 (a div 4), b64 (a mod 4 * 16), CHR ''='', CHR ''='']"
| "base64 [a, b] =
     [b64 (a div 4), b64 (a mod 4 * 16 + b div 16), b64 (b mod 16 * 4), CHR ''='']"
| "base64 (a # b # c # r) =
     [b64 (a div 4), b64 (a mod 4 * 16 + b div 16), b64 (b mod 16 * 4 + c div 64),
      b64 (c mod 64)] @ base64 r"

definition btoa :: "string \<Rightarrow> js_error + string" where
  "btoa s = (case latin1 s of None \<Rightarrow> Inl InvalidCharacterError | Some us \<Rightarrow> Inr (base64 us))"

text \<open>
  \<open>encodeURIComponent\<close> keeps the unreserved characters and writes every other
  byte of the UTF-8 encoding as \<open>%XX\<close>.
\<close>

definition unreserved :: string where
  "unreserved =
     ''ABCDEFGHIJKLMNOPQRSTUVWXYZabcdefghijklmnopqrstuvwxyz0123456789-_.!~*'()''"

definition hexdigit :: "nat \<Rightarrow> char" where
  "hexdigit n = ''0123456789ABCDEF'' ! n"

definition encodeURIComponent :: "string \<Rightarrow> string" where
  "encodeURIComponent s =
     concat (map (\<lambda>c. if c \<in> set unreserved then [c]
                        else [CHR ''%'', hexdigit (of_char c div 16), hexdigit (of_char c mod 16)]) s)"

subsection \<open>\<open>buildHeaders\<close>\<close>

text \<open>
  \<^verbatim>\<open>const buildHeaders = (testCase, { isFormData }) => {
  const headers = {};
  (testCase.headers || []).forEach(({ key, value }) => {
    if (!key) return;
    headers[key] = value;
  });
  const authType = testCase.authType;
  const auth = testCase.auth || {};
  if (authType === "Bearer" && auth.token) {
    headers["Authorization"] = `Bearer ${auth.token}`;
  }
  if (authType === "Basic" && auth.username && auth.password) {
    headers["Authorization"] = "Basic " + btoa(`${auth.username}:${auth.password}`);
  }
  if (authType === "ApiKey" && auth.apiKey && auth.apiKeyLocation === "header") {
    const headerName = auth.apiKeyName?.trim() || "x-api-key";
    headers[headerName] = auth.apiKey;
  }
  if (isFormData) {
    Object.keys(headers).forEach(key => {
      if (key.toLowerCase() === "content-type") {
        delete headers[key];
      }
    });
  }
  return headers;
};\<close>
  The headers are the map from names to values; \<open>btoa\<close> may throw.
\<close>

definition withoutContentType :: "(string \<rightharpoonup> string) \<Rightarrow> (string \<rightharpoonup> string)" where
  "withoutContentType hs = (\<lambda>k. if toLowerCase k = ''content-type'' then None else hs k)"

definition buildHeaders :: "testcase \<Rightarrow> bool \<Rightarrow> js_error + (string \<rightharpoonup> string)" where
  "buildHeaders testCase formEncoded =
     (let headers0 = objectOf (tc_headers testCase);
          authType = tc_authType testCase;
          auth = tc_auth testCase;
          headers1 = (if authType = ''Bearer'' \<and> token auth \<noteq> []
                      then headers0(''Authorization'' \<mapsto> ''Bearer '' @ token auth)
                      else headers0) in
      case (if authType = ''Basic'' \<and> username auth \<noteq> [] \<and> password auth \<noteq> []
            then (case btoa (username auth @ '':'' @ password auth) of
                    Inl e \<Rightarrow> Inl e
                  | Inr enc \<Rightarrow> Inr (headers1(''Authorization'' \<mapsto> ''Basic '' @ enc)))
            else Inr headers1) of
        Inl e \<Rightarrow> Inl e
      | Inr headers2 \<Rightarrow>
         (let headers3 =
                (if authType = ''ApiKey'' \<and> apiKey auth \<noteq> [] \<and> apiKeyLocation auth = ''header''
                 then (let headerName = (if trim (apiKeyName auth) = [] then ''x-api-key''
                                         else trim (apiKeyName auth))
                       in headers2(headerName \<mapsto> apiKey auth))
                 else headers2) in
          Inr (if formEncoded then withoutContentType headers3 else headers3)))"

section \<open>The test runner\<close>

text \<open>
  The request configuration handed to \<open>axios\<close>: \<open>rq_x\<close> is its property \<open>x\<close>,
  absent where it is \<open>None\<close>.  Its \<open>validateStatus\<close> is always \<open>() => true\<close>, so
  the transport resolves with the response whatever the status.
\<close>

record 'j request =
  rq_method :: string
  rq_url :: string
  rq_headers :: "string \<rightharpoonup> string"
  rq_timeout :: "rat option"
  rq_data :: "'j body option"

record response =
  rs_status :: int
  rs_statusText :: string

text \<open>
  The promise of \<open>axios\<close> resolves with a response, or rejects with an error that
  has a message and may carry a response.
\<close>

datatype axios_result = Resolved response | Rejected "response option" string

text \<open>
  The surroundings of the module.  \<open>axios k\<close> answers the call made after \<open>k\<close>
  earlier ones, \<open>Date_now k\<close> is the reading of the clock after \<open>k\<close> earlier
  readings (in milliseconds), \<open>toISOString\<close> prints such a reading, and
  \<open>toLocaleString\<close> prints a date given as a string in the locale and time zone of
  the browser (\<open>None\<close> where that throws).
\<close>

record 'j env =
  JSON_parse :: "string \<Rightarrow> 'j option"
  hasFormData :: bool
  axios :: "nat \<Rightarrow> 'j request \<Rightarrow> axios_result"
  Date_now :: "nat \<Rightarrow> int"
  toISOString :: "int \<Rightarrow> string"
  toLocaleString :: "string \<Rightarrow> string option"

text \<open>What has happened so far: the clock readings taken and the requests sent.\<close>

record 'j world =
  readings :: nat
  sent :: "'j request list"

text \<open>The Outcome of one execution, with the property names of the source.\<close>

record outcome =
  caseId :: string
  caseName :: string
  ok :: bool
  status :: "int option"
  statusText :: "string option"
  timeMs :: "int option"
  expectedStatus :: "int option"
  warning :: "string option"
  executedAt :: string
  error :: "string option"

text \<open>
  \<^verbatim>\<open>let finalUrl = ensureTrimmed(testCase.url || "");
  if (!finalUrl) {
    throw new Error("Missing URL for test case.");
  }
  const authType = testCase.authType;
  const auth = testCase.auth || {};
  if (authType === "ApiKey" && auth.apiKey && auth.apiKeyLocation === "query") {
    const paramName = auth.apiKeyName?.trim() || "apiKey";
    const param = `${encodeURIComponent(paramName)}=${encodeURIComponent(auth.apiKey)}`;
    finalUrl += (finalUrl.includes("?") ? "&" : "?") + param;
  }\<close>
\<close>

definition finalUrlOf :: "testcase \<Rightarrow> js_error + string" where
  "finalUrlOf testCase =
     (let finalUrl = ensureTrimmed (tc_url testCase) in
      if finalUrl = [] then Inl (Error ''Missing URL for test case.'')
      else
        (let authType = tc_authType testCase;
             auth = tc_auth testCase in
         if authType = ''ApiKey'' \<and> apiKey auth \<noteq> [] \<and> apiKeyLocation auth = ''query'' then
           (let paramName = (if trim (apiKeyName auth) = [] then ''apiKey''
                             else trim (apiKeyName auth));
                param = encodeURIComponent paramName @ ''='' @ encodeURIComponent (apiKey auth)
            in Inr (finalUrl @ (if CHR ''?'' \<in> set finalUrl then ''&'' else ''?'') @ param))
         else Inr finalUrl))"

text \<open>
  \<^verbatim>\<open>const timeoutSeconds = asNumber(testCase.maxResponseTime);
  ...
  if (timeoutSeconds && timeoutSeconds > 0) {
    requestConfig.timeout = timeoutSeconds * 1000;
  }\<close>
\<close>

definition timeoutOf :: "testcase \<Rightarrow> rat option" where
  "timeoutOf testCase =
     (case asNumber (tc_maxResponseTime testCase) of
        None \<Rightarrow> None
      | Some timeoutSeconds \<Rightarrow>
          if timeoutSeconds \<noteq> 0 \<and> timeoutSeconds > 0 then Some (timeoutSeconds * 1000)
          else None)"

text \<open>
  \<open>runTestCase\<close> (lines 126 to 194 of the module).  It throws (\<open>Inl\<close>) or
  returns an Outcome (\<open>Inr\<close>), and leaves the world with the clock readings it took
  and the request it sent.  The body is built before the headers; the clock is read
  before the call, after it, and once more for \<open>executedAt\<close>.
\<close>

definition runTestCase ::
  "'j env \<Rightarrow> testcase \<Rightarrow> 'j world \<Rightarrow> (js_error + outcome) \<times> 'j world" where
  "runTestCase env testCase w =
     (let method = toUpperCase (if tc_method testCase = [] then ''GET'' else tc_method testCase) in
      case finalUrlOf testCase of
        Inl e \<Rightarrow> (Inl e, w)
      | Inr finalUrl \<Rightarrow>
         (let built = buildBody (JSON_parse env) (hasFormData env) testCase in
          case buildHeaders testCase (isFormData built) of
            Inl e \<Rightarrow> (Inl e, w)
          | Inr headers \<Rightarrow>
             (let requestConfig =
                    \<lparr>rq_method = method, rq_url = finalUrl, rq_headers = headers,
                     rq_timeout = timeoutOf testCase, rq_data = data built\<rparr>;
                  start = Date_now env (readings w);
                  result = axios env (length (sent w)) requestConfig;
                  elapsed = Date_now env (readings w + 1) - start;
                  completed = toISOString env (Date_now env (readings w + 2));
                  w' = \<lparr>readings = readings w + 3, sent = sent w @ [requestConfig]\<rparr>
              in case result of
                   Resolved response \<Rightarrow>
                     (let expectedStatus = asNumber (tc_expectedStatus testCase);
                          ok = (case expectedStatus of
                                  Some e \<Rightarrow> rs_status response = e
                                | None \<Rightarrow> rs_status response \<ge> 200 \<and> rs_status response < 300)
                      in (Inr \<lparr>caseId = tc_id testCase, caseName = tc_caseName testCase,
                               ok = ok, status = Some (rs_status response),
                               statusText = Some (rs_statusText response),
                               timeMs = Some elapsed, expectedStatus = expectedStatus,
                               warning = bodyWarning built, executedAt = completed,
                               error = None\<rparr>, w'))
                 | Rejected partial message \<Rightarrow>
                     (Inr \<lparr>caseId = tc_id testCase, caseName = tc_caseName testCase,
                           ok = False, status = map_option rs_status partial,
                           statusText = map_option rs_statusText partial,
                           timeMs = Some elapsed,
                           expectedStatus = asNumber (tc_expectedStatus testCase),
                           warning = bodyWarning built, executedAt = completed,
                           error = Some message\<rparr>, w'))))"

section \<open>The JUnit report\<close>

text \<open>
  \<open>str.replace(/c/g, r)\<close> for a single character \<open>c\<close>: every occurrence of \<open>c\<close>
  becomes \<open>r\<close>.
\<close>

definition replaceAll :: "char \<Rightarrow> string \<Rightarrow> string \<Rightarrow> string" where
  "replaceAll c r str = concat (map (\<lambda>x. if x = c then r else [x]) str)"

text \<open>
  \<^verbatim>\<open>const escapeXml = value => {
  const raw = ensureTrimmed(value ?? "");
  const str = String(raw);
  return str
    .replace(/&/g, "&amp;")
    .replace(/</g, "&lt;")
    .replace(/>/g, "&gt;")
    .replace(/\"/g, "&quot;")
    .replace(/'/g, "&apos;");
};\<close>
  on a string.
\<close>

definition escapeXml :: "string \<Rightarrow> string" where
  \<open>escapeXml v =
     (let raw = ensureTrimmed v;
          str = raw
      in replaceAll (CHR 0x27) ''&apos;''
          (replaceAll CHR ''"'' ''&quot;''
            (replaceAll CHR ''>'' ''&gt;''
              (replaceAll CHR ''<'' ''&lt;''
                (replaceAll CHR ''&'' ''&amp;'' str)))))\<close>

text \<open>
  \<open>Object.fromEntries(testCases.map(tc => [tc.id, tc]))\<close>: the test cases by id,
  the last one with an id winning.  A failed lookup gives \<open>{}\<close> in the source, an
  object without properties; here it is \<open>None\<close>, and \<open>property\<close> reads a property of
  the looked-up object, with the empty string for an undefined one.
\<close>

definition casesById :: "testcase list \<Rightarrow> (string \<rightharpoonup> testcase)" where
  "casesById testCases = map_of (rev (map (\<lambda>tc. (tc_id tc, tc)) testCases))"

definition property :: "(testcase \<Rightarrow> string) \<Rightarrow> testcase option \<Rightarrow> string" where
  "property f target = (case target of None \<Rightarrow> [] | Some tc \<Rightarrow> f tc)"

text \<open>\<open>a || b\<close> on strings: \<open>a\<close> if it is not empty, else \<open>b\<close>.\<close>

definition orElse :: "string \<Rightarrow> string \<Rightarrow> string" where
  "orElse a b = (if a \<noteq> [] then a else b)"

text \<open>\<open>parts.join(sep)\<close>.\<close>

fun join :: "string \<Rightarrow> string list \<Rightarrow> string" where
  "join sep [] = []"
| "join sep [x] = x"
| "join sep (x # y # ys) = x @ sep @ join sep (y # ys)"

text \<open>
  The notation of \<open>n / 1000\<close> for an integer \<open>n\<close> of milliseconds, as a template
  literal prints the quotient: the integer part and, unless they are all zero, the
  three decimals without their trailing zeros (for \<open>n\<close> below \<open>10^15\<close> in absolute
  value, where the quotient has fewer than 16 significant digits).
\<close>

definition show_thousandths :: "int \<Rightarrow> string" where
  "show_thousandths n =
     (let a = nat \<bar>n\<bar>;
          decimals = [digit (a mod 1000 div 100), digit (a mod 100 div 10), digit (a mod 10)];
          kept = rev (dropWhile (\<lambda>c. c = CHR ''0'') (rev decimals))
      in (if n < 0 then ''-'' else [])
         @ show_nat (a div 1000)
         @ (if kept = [] then [] else ''.'' @ kept))"

text \<open>
  \<^verbatim>\<open>const target = casesById[result.caseId] || {};
    const fallbackName = `${target.method || result.caseName || ""} ${target.url || ""}`.trim();
    const name = target.caseName || result.caseName || fallbackName || "Unnamed Case";
    const failureBlock = result.ok ? "" : `<failure message="Expected ${result.expectedStatus ?? "2xx"}, got ${result.status ?? "error"}">${result.error || "Request failed"}</failure>`;
    return `    <testcase classname="API" name="${escapeXml(name)}" time="${(result.timeMs || 0) / 1000}">
${failureBlock ? `      ${failureBlock}\n` : ""}    </testcase>`;\<close>
\<close>

definition failureBlock :: "outcome \<Rightarrow> string" where
  \<open>failureBlock result =
     (if ok result then []
      else ''<failure message="Expected ''
           @ (case expectedStatus result of None \<Rightarrow> ''2xx'' | Some e \<Rightarrow> show_int e)
           @ '', got ''
           @ (case status result of None \<Rightarrow> ''error'' | Some s \<Rightarrow> show_int s)
           @ ''">''
           @ (case error result of None \<Rightarrow> ''Request failed''
              | Some e \<Rightarrow> orElse e ''Request failed'')
           @ ''</failure>'')\<close>

definition junitName :: "testcase option \<Rightarrow> outcome \<Rightarrow> string" where
  "junitName target result =
     (let fallbackName =
            trim (orElse (property tc_method target) (orElse (caseName result) [])
                  @ '' '' @ orElse (property tc_url target) [])
      in orElse (property tc_caseName target)
           (orElse (caseName result) (orElse fallbackName ''Unnamed Case'')))"

definition testCaseEntry :: "(string \<rightharpoonup> testcase) \<Rightarrow> outcome \<Rightarrow> string" where
  \<open>testCaseEntry byId result =
     (let target = byId (caseId result);
          name = junitName target result
      in ''    <testcase classname="API" name="'' @ escapeXml name
         @ ''" time="''
         @ show_thousandths (case timeMs result of None \<Rightarrow> 0 | Some t \<Rightarrow> t)
         @ ''">\<newline>''
         @ (if failureBlock result \<noteq> [] then ''      '' @ failureBlock result @ ''\<newline>''
            else [])
         @ ''    </testcase>'')\<close>

text \<open>
  \<^verbatim>\<open>export function generateJUnitReport(testCases, results) {
  const total = testCases.length;
  const failures = results.filter(r => !r.ok).length;
  const casesById = Object.fromEntries(testCases.map(tc => [tc.id, tc]));
  const testCaseEntries = results.map(result => { ... }).join("\n");
  return `<?xml version="1.0" encoding="UTF-8"?>\n<testsuite name="API Tests" tests="${total}" failures="${failures}">\n${testCaseEntries}\n</testsuite>`;
}\<close>
\<close>

definition generateJUnitReport :: "testcase list \<Rightarrow> outcome list \<Rightarrow> string" where
  \<open>generateJUnitReport testCases results =
     (let total = length testCases;
          failures = length (filter (\<lambda>r. \<not> ok r) results);
          testCaseEntries = join ''\<newline>'' (map (testCaseEntry (casesById testCases)) results)
      in ''<?xml version="1.0" encoding="UTF-8"?>\<newline><testsuite name="API Tests" tests="''
         @ show_nat total @ ''" failures="'' @ show_nat failures @ ''">\<newline>''
         @ testCaseEntries @ ''\<newline></testsuite>'')\<close>

section \<open>Durations\<close>

text \<open>
  A double is modelled by the rational number it holds.  \<open>divide_double a b\<close> is the
  quotient \<open>a / b\<close> of two integers \<open>a \<ge> b > 0\<close> as IEEE 754 computes it: with
  \<open>2^e \<le> a / b < 2^(e + 1)\<close>, the multiple of \<open>2^(e - 52)\<close> nearest to \<open>a / b\<close>, a
  tie going to the even multiple.
\<close>

fun exponent :: "nat \<Rightarrow> nat" where
  "exponent n = (if n < 2 then 0 else Suc (exponent (n div 2)))"

declare exponent.simps [simp del]

definition round_half_even :: "rat \<Rightarrow> int" where
  "round_half_even y =
     (let f = \<lfloor>y\<rfloor>; d = y - of_int f in
      if d < 1 / 2 then f
      else if d > 1 / 2 then f + 1
      else if even f then f else f + 1)"

definition divide_double :: "int \<Rightarrow> int \<Rightarrow> rat" where
  "divide_double a b =
     (let q = of_int a / of_int b;
          e = exponent (nat (a div b));
          ulp = 2 ^ e / 2 ^ 52 in
      of_int (round_half_even (q / ulp)) * ulp)"

text \<open>
  \<open>x.toFixed(f)\<close> for \<open>0 \<le> x < 10^21\<close>: with \<open>n\<close> the integer for which
  \<open>n / 10^f - x\<close> is closest to zero, the larger one if there are two, the decimal
  digits of \<open>n\<close>, padded with zeros on the left to \<open>f + 1\<close> digits, with a point
  before the last \<open>f\<close> digits when \<open>f\<close> is not zero.
\<close>

definition toFixed :: "nat \<Rightarrow> rat \<Rightarrow> string" where
  "toFixed f x =
     (let n = nat \<lfloor>x * 10 ^ f + 1 / 2\<rfloor>;
          m = show_nat n;
          m = replicate (f + 1 - length m) (CHR ''0'') @ m;
          k = length m in
      if f = 0 then m else take (k - f) m @ ''.'' @ drop (k - f) m)"

text \<open>
  \<^verbatim>\<open>const formatDuration = ms => {
  if (!Number.isFinite(ms)) return "-";
  if (ms >= 1000) {
    const seconds = ms / 1000;
    return `${seconds.toFixed(seconds >= 10 ? 0 : 2)} s`;
  }
  return `${ms} ms`;
};\<close>
  on a whole number of milliseconds that a double holds exactly (below \<open>2^53\<close> in
  absolute value), or on \<open>None\<close> for a value that is not a finite number
  (\<open>undefined\<close>, \<open>NaN\<close>, an infinity).
\<close>

definition formatDuration :: "int option \<Rightarrow> string" where
  "formatDuration ms =
     (case ms of
        None \<Rightarrow> ''-''
      | Some v \<Rightarrow>
          if v \<ge> 1000 then
            (let seconds = divide_double v 1000 in
             toFixed (if seconds \<ge> 10 then 0 else 2) seconds @ '' s'')
          else show_int v @ '' ms'')"

section \<open>The HTML preview\<close>

text \<open>
  \<^verbatim>\<open>const formatDateTime = iso => {
  if (!iso) return "-";
  try {
    return new Date(iso).toLocaleString();
  } catch {
    return iso;
  }
};\<close>
  \<open>toLocaleString env iso\<close> is \<open>new Date(iso).toLocaleString()\<close> in the locale and
  time zone of the browser, \<open>None\<close> where it throws.
\<close>

definition formatDateTime :: "'j env \<Rightarrow> string \<Rightarrow> string" where
  "formatDateTime env isoDate =
     (if isoDate = [] then ''-''
      else case toLocaleString env isoDate of Some s \<Rightarrow> s | None \<Rightarrow> isoDate)"

text \<open>
  \<^verbatim>\<open>const escapeHtml = value => {
  const raw = ensureTrimmed(value ?? "");
  const str = String(raw);
  return str
    .replace(/&/g, "&amp;")
    .replace(/</g, "&lt;")
    .replace(/>/g, "&gt;")
    .replace(/\"/g, "&quot;")
    .replace(/'/g, "&#39;");
};\<close>
  on a string.  Where the source hands it a number, the model hands it the decimal
  notation, which \<open>String\<close> gives and trimming leaves as it is.
\<close>

definition escapeHtml :: "string \<Rightarrow> string" where
  \<open>escapeHtml v =
     (let raw = ensureTrimmed v;
          str = raw
      in replaceAll (CHR 0x27) ''&#39;''
          (replaceAll CHR ''"'' ''&quot;''
            (replaceAll CHR ''>'' ''&gt;''
              (replaceAll CHR ''<'' ''&lt;''
                (replaceAll CHR ''&'' ''&amp;'' str)))))\<close>

text \<open>The \<open>meta\<close> argument: \<open>m_executedAt\<close> is its property \<open>executedAt\<close>, empty if absent.\<close>

record meta =
  m_executedAt :: string

text \<open>
  The static text of the page template (lines 364 to 467 of the module), between
  its interpolations.  The characters outside ASCII are the bytes of the source file.
\<close>

definition page_0 :: string where
  \<open>page_0 =
     ''<!DOCTYPE html>\<newline>''
     @ ''  <html lang="en">\<newline>''
     @ ''    <head>\<newline>''
     @ ''      <meta charset="UTF-8" />\<newline>''
     @ ''      <title>Allure Report Preview</title>\<newline>''
     @ ''      <meta name="viewport" content="width=device-width, initial-scale=1" />\<newline>''
     @ ''      <style>\<newline>''
     @ ''        body { font-family: 'Inter', 'Segoe UI', system-ui, -apple-system, sans-serif; margin: 0; background: linear-gradient(135deg, #0f172a 0%, #111827 100%); color: #e2e8f0; }\<newline>''
     @ ''        .shell { max-width: 1100px; margin: 0 auto; padding: 3rem 1.5rem 4rem; }\<newline>''
     @ ''        .header { margin-bottom: 2.5rem; }\<newline>''
     @ ''        .header h1 { margin: 0 0 0.5rem; font-size: clamp(1.8rem, 2vw + 1.2rem, 2.8rem); letter-spacing: 0.05em; text-transform: uppercase; color: #38bdf8; }\<newline>''
     @ ''        .header p { margin: 0; font-size: 0.95rem; color: rgba(226, 232, 240, 0.75); }\<newline>''
     @ ''        .summary { display: grid; gap: 1rem; grid-template-columns: repeat(auto-fit, minmax(160px, 1fr)); margin-bottom: 2rem; }\<newline>''
     @ ''        .card { background: rgba(15, 23, 42, 0.8); border: 1px solid rgba(56, 189, 248, 0.25); border-radius: 16px; padding: 1.25rem; box-shadow: 0 20px 50px rgba(15, 23, 42, 0.45); }\<newline>''
     @ ''        .card h3 { margin: 0 0 0.4rem; font-size: 0.85rem; letter-spacing: 0.08em; text-transform: uppercase; color: rgba(148, 163, 184, 0.9); }\<newline>''
     @ ''        .card span { font-size: 1.9rem; font-weight: 700; }\<newline>''
     @ ''        .card--pass span { color: #4ade80; }\<newline>''
     @ ''        .card--fail span { color: #f87171; }\<newline>''
     @ ''        .card--warn span { color: #facc15; }\<newline>''
     @ ''        .filters { display: flex; flex-wrap: wrap; gap: 0.75rem; margin-bottom: 2rem; }\<newline>''
     @ ''        .filter { border: 1px solid rgba(148, 163, 184, 0.4); background: rgba(15, 23, 42, 0.7); color: #f1f5f9; border-radius: 999px; padding: 0.5rem 1rem; cursor: pointer; font-weight: 600; letter-spacing: 0.04em; text-transform: uppercase; transition: all 0.18s ease; }\<newline>''
     @ ''        .filter:hover { border-color: rgba(56, 189, 248, 0.8); color: #38bdf8; }\<newline>''
     @ ''        .filter.is-active { background: #38bdf8; color: #0f172a; box-shadow: 0 12px 30px rgba(56, 189, 248, 0.35); }\<newline>''
     @ ''        .cases { display: grid; gap: 1.25rem; }\<newline>''
     @ ''        .case { background: rgba(15, 23, 42, 0.85); border-radius: 18px; padding: 1.5rem; border: 1px solid transparent; box-shadow: 0 25px 40px rgba(15, 23, 42, 0.45); transition: transform 0.18s ease, border-color 0.18s ease; }\<newline>''
     @ ''        .case:hover { transform: translateY(-4px); border-color: rgba(56, 189, 248, 0.5); }\<newline>''
     @ ''        .case--passed { border-color: rgba(74, 222, 128, 0.35); }\<newline>''
     @ ''        .case--failed { border-color: rgba(248, 113, 113, 0.4); }\<newline>''
     @ ''        .case__header { display: flex; flex-wrap: wrap; align-items: center; gap: 0.75rem; margin-bottom: 0.6rem; }\<newline>''
     @ ''        .case__status { padding: 0.25rem 0.75rem; border-radius: 999px; font-size: 0.75rem; letter-spacing: 0.08em; text-transform: uppercase; background: rgba(56, 189, 248, 0.18); color: #38bdf8; }\<newline>''
     @ ''        .case--passed .case__status { background: rgba(74, 222, 128, 0.2); color: #4ade80; }\<newline>''
     @ ''        .case--failed .case__status { background: rgba(248, 113, 113, 0.2); color: #f87171; }\<newline>''
     @ ''        .case__name { margin: 0; font-size: 1.25rem; color: #f8fafc; }\<newline>''
     @ ''        .case__meta { display: flex; flex-wrap: wrap; gap: 0.75rem; font-size: 0.8rem; color: rgba(148, 163, 184, 0.85); margin-bottom: 0.8rem; }\<newline>''
     @ ''        .case__url { font-family: "SFMono-Regular", Consolas, "Liberation Mono", Menlo, monospace; font-size: 0.85rem; color: #38bdf8; margin-bottom: 0.75rem; word-break: break-all; }\<newline>''
     @ ''        .case__timeline { font-size: 0.78rem; color: rgba(226, 232, 240, 0.65); margin-bottom: 0.65rem; }\<newline>''
     @ ''        .case__alert { padding: 0.6rem 0.8rem; border-radius: 12px; font-size: 0.82rem; margin-top: 0.5rem; }\<newline>''
     @ ''        .case__alert--warning { background: rgba(251, 191, 36, 0.18); color: #facc15; border: 1px solid rgba(251, 191, 36, 0.3); }\<newline>''
     @ ''        .case__alert--error { background: rgba(248, 113, 113, 0.2); color: #f87171; border: 1px solid rgba(248, 113, 113, 0.35); }\<newline>''
     @ ''        .empty { border: 1px dashed rgba(148, 163, 184, 0.4); border-radius: 16px; padding: 2.5rem 1.5rem; text-align: center; color: rgba(226, 232, 240, 0.65); }\<newline>''
     @ ''        footer { margin-top: 3rem; font-size: 0.75rem; color: rgba(148, 163, 184, 0.55); text-align: center; }\<newline>''
     @ ''        @media (max-width: 720px) {\<newline>''
     @ ''          .shell { padding: 2.5rem 1.1rem 3rem; }\<newline>''
     @ ''          .cases { gap: 1rem; }\<newline>''
     @ ''        }\<newline>''
     @ ''      </style>\<newline>''
     @ ''    </head>\<newline>''
     @ ''    <body>\<newline>''
     @ ''      <div class="shell">\<newline>''
     @ ''        <header class="header">\<newline>''
     @ ''          <h1>Allure Report Preview</h1>\<newline>''
     @ ''          <p>Generated ''\<close>

definition page_1 :: string where
  \<open>page_1 =
     '' '' @ [CHR 0xC2, CHR 0xAC, CHR 0xE2, CHR 0x88, CHR 0x91] @ '' Total duration ''\<close>

definition page_2 :: string where
  \<open>page_2 =
     ''</p>\<newline>''
     @ ''        </header>\<newline>''
     @ ''        <section class="summary">\<newline>''
     @ ''          <div class="card">\<newline>''
     @ ''            <h3>Total</h3>\<newline>''
     @ ''            <span>''\<close>

definition page_3 :: string where
  \<open>page_3 =
     ''</span>\<newline>''
     @ ''          </div>\<newline>''
     @ ''          <div class="card card--pass">\<newline>''
     @ ''            <h3>Passed</h3>\<newline>''
     @ ''            <span>''\<close>

definition page_4 :: string where
  \<open>page_4 =
     ''</span>\<newline>''
     @ ''          </div>\<newline>''
     @ ''          <div class="card card--fail">\<newline>''
     @ ''            <h3>Failed</h3>\<newline>''
     @ ''            <span>''\<close>

definition page_5 :: string where
  \<open>page_5 =
     ''</span>\<newline>''
     @ ''          </div>\<newline>''
     @ ''          <div class="card card--warn">\<newline>''
     @ ''            <h3>Warnings</h3>\<newline>''
     @ ''            <span>''\<close>

definition page_6 :: string where
  \<open>page_6 =
     ''</span>\<newline>''
     @ ''          </div>\<newline>''
     @ ''        </section>\<newline>''
     @ ''        <div class="filters">\<newline>''
     @ ''          ''\<close>

definition page_7 :: string where
  \<open>page_7 =
     ''\<newline>''
     @ ''        </div>\<newline>''
     @ ''        <section class="cases">\<newline>''
     @ ''          ''\<close>

definition page_8 :: string where
  \<open>page_8 =
     ''\<newline>''
     @ ''        </section>\<newline>''
     @ ''        <footer>\<newline>''
     @ ''          Preview generated in the browser. Exported Allure results are available in the downloaded ZIP.\<newline>''
     @ ''        </footer>\<newline>''
     @ ''      </div>\<newline>''
     @ ''      <script>\<newline>''
     @ ''        (function() {\<newline>''
     @ ''          const buttons = Array.from(document.querySelectorAll('.filter'));\<newline>''
     @ ''          const cards = Array.from(document.querySelectorAll('.case'));\<newline>''
     @ ''          const applyFilter = key => {\<newline>''
     @ ''            buttons.forEach(btn => btn.classList.toggle('is-active', btn.dataset.filter === key));\<newline>''
     @ ''            cards.forEach(card => {\<newline>''
     @ ''              if (!card) return;\<newline>''
     @ ''              const status = card.dataset.status;\<newline>''
     @ ''              const warning = card.dataset.warning === 'true';\<newline>''
     @ ''              let show = true;\<newline>''
     @ ''              if (key === 'passed') show = status === 'passed';\<newline>''
     @ ''              if (key === 'failed') show = status === 'failed';\<newline>''
     @ ''              if (key === 'warning') show = warning;\<newline>''
     @ ''              card.style.display = show ? '' @ [CHR 0x27] @ [CHR 0x27] @ '' : 'none';\<newline>''
     @ ''            });\<newline>''
     @ ''          };\<newline>''
     @ ''          buttons.forEach(btn => btn.addEventListener('click', () => applyFilter(btn.dataset.filter)));\<newline>''
     @ ''          applyFilter('all');\<newline>''
     @ ''        })();\<newline>''
     @ ''      </script>\<newline>''
     @ ''    </body>\<newline>''
     @ ''  </html>''\<close>

text \<open>
  \<^verbatim>\<open>const filterButtons = [
    { key: "all", label: `All (${total})` },
    { key: "passed", label: `Passed (${passed})` },
    { key: "failed", label: `Failed (${failed})` },
    { key: "warning", label: `Warnings (${warnings})` }
  ];
  const filterControls = filterButtons
    .map((btn, index) => `
        <button class="filter${index === 0 ? " is-active" : ""}" data-filter="${btn.key}">
          ${escapeHtml(btn.label)}
        </button>
      `)
    .join("");\<close>
\<close>

definition filterControls :: "nat \<Rightarrow> nat \<Rightarrow> nat \<Rightarrow> nat \<Rightarrow> string" where
  \<open>filterControls totalCount passedCount failedCount warningCount =
     (let filterButtons =
            [(''all'', ''All ('' @ show_nat totalCount @ '')''),
             (''passed'', ''Passed ('' @ show_nat passedCount @ '')''),
             (''failed'', ''Failed ('' @ show_nat failedCount @ '')''),
             (''warning'', ''Warnings ('' @ show_nat warningCount @ '')'')]
      in concat (map (\<lambda>(index, (key, label)).
           ''\<newline>''
           @ ''        <button class="filter'' @ (if index = 0 then '' is-active'' else [])
           @ ''" data-filter="'' @ key @ ''">\<newline>''
           @ ''          '' @ escapeHtml label @ ''\<newline>''
           @ ''        </button>\<newline>''
           @ ''      '') (enumerate 0 filterButtons)))\<close>

text \<open>
  One card (lines 325 to 359 of the module): \<open>idx\<close> is the index of the Outcome
  in \<open>results\<close>.  A string is truthy when it is not empty.
\<close>

definition truthy :: "string option \<Rightarrow> bool" where
  "truthy v = (case v of None \<Rightarrow> False | Some s \<Rightarrow> s \<noteq> [])"

definition caseCard :: "'j env \<Rightarrow> (string \<rightharpoonup> testcase) \<Rightarrow> nat \<times> outcome \<Rightarrow> string" where
  \<open>caseCard env byId = (\<lambda>(idx, result).
     (let target = byId (caseId result);
          method = orElse (property tc_method target) ''GET'';
          url = orElse (property tc_url target) [];
          fallbackName = trim (method @ '' '' @ url);
          name = orElse (property tc_caseName target)
                   (orElse (caseName result)
                     (orElse fallbackName (''Case #'' @ show_nat (idx + 1))));
          statusClass = (if ok result then ''case--passed'' else ''case--failed'');
          statusLabel = (if ok result then ''Passed'' else ''Failed'');
          expected = (case expectedStatus result of
                        Some e \<Rightarrow> show_int e
                      | None \<Rightarrow> [CHR 0xE2, CHR 0x80, CHR 0x9A, CHR 0xC3, CHR 0x84, CHR 0xC3, CHR 0xAE]);
          actual = (case status result of
                      Some s \<Rightarrow> show_int s
                    | None \<Rightarrow> [CHR 0xE2, CHR 0x80, CHR 0x9A, CHR 0xC3, CHR 0x84, CHR 0xC3, CHR 0xAE]);
          executed = formatDateTime env (executedAt result);
          warningBlock =
            (if truthy (warning result)
             then ''<div class="case__alert case__alert--warning">''
                  @ [CHR 0xE2, CHR 0x80, CHR 0x9A, CHR 0xC3, CHR 0xB6, CHR 0xE2, CHR 0x80, CHR 0xA0,
                     CHR 0xC3, CHR 0x94, CHR 0xE2, CHR 0x88, CHR 0x8F, CHR 0xC3, CHR 0xA8]
                  @ '' '' @ escapeHtml (the (warning result)) @ ''</div>''
             else []);
          errorBlock =
            (if truthy (error result)
             then ''<div class="case__alert case__alert--error">''
                  @ [CHR 0xEF, CHR 0xA3, CHR 0xBF, CHR 0xC3, CHR 0xBC, CHR 0xC3, CHR 0xAE,
                     CHR 0xE2, CHR 0x80, CHR 0xA2]
                  @ '' '' @ escapeHtml (the (error result)) @ ''</div>''
             else [])
      in ''\<newline>''
         @ ''      <article class="case '' @ statusClass
         @ ''" data-status="'' @ (if ok result then ''passed'' else ''failed'')
         @ ''" data-warning="'' @ (if truthy (warning result) then ''true'' else ''false'')
         @ ''">\<newline>''
         @ ''        <header class="case__header">\<newline>''
         @ ''          <span class="case__status">'' @ statusLabel @ ''</span>\<newline>''
         @ ''          <h2 class="case__name">'' @ escapeHtml name @ ''</h2>\<newline>''
         @ ''        </header>\<newline>''
         @ ''        <div class="case__meta">\<newline>''
         @ ''          <span>'' @ escapeHtml method @ ''</span>\<newline>''
         @ ''          <span>Expected '' @ escapeHtml expected @ ''</span>\<newline>''
         @ ''          <span>Actual '' @ escapeHtml actual @ ''</span>\<newline>''
         @ ''          <span>'' @ escapeHtml (formatDuration (timeMs result)) @ ''</span>\<newline>''
         @ ''        </div>\<newline>''
         @ ''        <div class="case__url">'' @ escapeHtml url @ ''</div>\<newline>''
         @ ''        <div class="case__timeline">Ran at '' @ escapeHtml executed @ ''</div>\<newline>''
         @ ''        '' @ warningBlock @ ''\<newline>''
         @ ''        '' @ errorBlock @ ''\<newline>''
         @ ''      </article>\<newline>''
         @ ''    ''))\<close>

text \<open>
  \<^verbatim>\<open>export function generateAllureHtml(testCases, results, meta = {}) {
  const casesById = Object.fromEntries(testCases.map(tc => [tc.id, tc]));
  const total = results.length;
  const passed = results.filter(r => r.ok).length;
  const failed = total - passed;
  const warnings = results.filter(r => r.warning).length;
  const totalDuration = results.reduce((acc, res) => acc + (res.timeMs || 0), 0);
  const executedAt = meta.executedAt || new Date().toISOString();
  const executedDisplay = formatDateTime(executedAt);
  ...
  const caseCards = results.map((result, idx) => { ... }).join("");
  const casesSection = caseCards || `<div class="empty">No test cases were executed.</div>`;
  return `<!DOCTYPE html> ... </html>`;
}\<close>
  The function returns the document and the world: it reads the clock, once, only
  when \<open>meta.executedAt\<close> is absent or empty.
\<close>

definition generateAllureHtml ::
  "'j env \<Rightarrow> testcase list \<Rightarrow> outcome list \<Rightarrow> meta \<Rightarrow> 'j world \<Rightarrow> string \<times> 'j world" where
  \<open>generateAllureHtml env testCases results meta w =
     (let byId = casesById testCases;
          total = length results;
          passed = length (filter ok results);
          failed = total - passed;
          warnings = length (filter (\<lambda>r. truthy (warning r)) results);
          totalDuration = sum_list (map (\<lambda>res. case timeMs res of None \<Rightarrow> 0 | Some t \<Rightarrow> t) results);
          (executedAt, w') =
            (if m_executedAt meta \<noteq> [] then (m_executedAt meta, w)
             else (toISOString env (Date_now env (readings w)),
                   w\<lparr>readings := readings w + 1\<rparr>));
          executedDisplay = formatDateTime env executedAt;
          caseCards = concat (map (caseCard env byId) (enumerate 0 results));
          casesSection =
            orElse caseCards ''<div class="empty">No test cases were executed.</div>''
      in (page_0 @ escapeHtml executedDisplay
          @ page_1 @ escapeHtml (formatDuration (Some totalDuration))
          @ page_2 @ escapeHtml (show_nat total)
          @ page_3 @ escapeHtml (show_nat passed)
          @ page_4 @ escapeHtml (show_nat failed)
          @ page_5 @ escapeHtml (show_nat warnings)
          @ page_6 @ filterControls total passed failed warnings
          @ page_7 @ casesSection
          @ page_8, w'))\<close>

section \<open>Sample inputs\<close>

text \<open>
  The scenarios of the specification, as concrete test cases: a GET expecting 200
  (A), a POST with a raw body that is not JSON (B), a GET expecting 404 (C), an API
  key in the query string (D) and a timeout of three seconds (E).
\<close>

definition no_auth :: auth where
  "no_auth = \<lparr>token = [], username = [], password = [], apiKey = [],
              apiKeyLocation = [], apiKeyName = []\<rparr>"

definition scenario_A :: testcase where
  "scenario_A =
     \<lparr>tc_id = ''a'', tc_caseName = ''Scenario A'', tc_method = ''GET'',
      tc_url = ''https://api.example.com/ok'', tc_headers = [], tc_authType = ''None'',
      tc_auth = no_auth, tc_bodyType = ''raw'', tc_rawBody = ''{\"k\": 1}'',
      tc_formData = [(''k'', ''v'')], tc_expectedStatus = Num (Fin 200),
      tc_maxResponseTime = Null\<rparr>"

definition scenario_B :: testcase where
  "scenario_B =
     \<lparr>tc_id = ''b'', tc_caseName = ''Scenario B'', tc_method = ''POST'',
      tc_url = ''https://api.example.com/items'', tc_headers = [], tc_authType = ''None'',
      tc_auth = no_auth, tc_bodyType = ''raw'', tc_rawBody = ''{not json}'',
      tc_formData = [], tc_expectedStatus = Num (Fin 200), tc_maxResponseTime = Null\<rparr>"

definition scenario_C :: testcase where
  "scenario_C =
     \<lparr>tc_id = ''c'', tc_caseName = ''Scenario C'', tc_method = ''GET'',
      tc_url = ''https://api.example.com/x'', tc_headers = [], tc_authType = ''None'',
      tc_auth = no_auth, tc_bodyType = ''raw'', tc_rawBody = [],
      tc_formData = [], tc_expectedStatus = Num (Fin 404), tc_maxResponseTime = Null\<rparr>"



text \<open>
  A stand-in for \<open>JSON.parse\<close> on a few texts: the number \<open>1\<close>, the empty
  object and the empty array parse, every other text throws.
\<close>

datatype json = JNumber int | JObject "(string \<times> json) list" | JArray "json list"

definition parse_sample :: "string \<Rightarrow> json option" where
  "parse_sample s =
     (if s = ''1'' then Some (JNumber 1)
      else if s = ''{}'' then Some (JObject [])
      else if s = ''[]'' then Some (JArray [])
      else None)"

text \<open>
  Sample surroundings: a clock that advances by three seconds from one reading to
  the next, starting at the epoch, with \<open>toISOString\<close> as it prints the readings
  of the first minute and \<open>toLocaleString\<close> as the Swedish locale prints such a
  string in the time zone UTC; and a transport that answers \<open>200 OK\<close>, one that times
  out, and one that rejects with an error carrying a \<open>200\<close> response.
\<close>

definition iso_sample :: "int \<Rightarrow> string" where
  "iso_sample t =
     ''1970-01-01T00:00:'' @ [digit (nat t div 10000 mod 10), digit (nat t div 1000 mod 10)]
       @ ''.'' @ [digit (nat t div 100 mod 10), digit (nat t div 10 mod 10), digit (nat t mod 10)]
       @ ''Z''"

definition locale_sample :: "string \<Rightarrow> string option" where
  "locale_sample isoDate = Some (take 10 isoDate @ '' '' @ take 8 (drop 11 isoDate))"

definition env_sample :: "(nat \<Rightarrow> json request \<Rightarrow> axios_result) \<Rightarrow> json env" where
  "env_sample transport =
     \<lparr>JSON_parse = parse_sample, hasFormData = True, axios = transport,
      Date_now = (\<lambda>k. 3000 * int k), toISOString = iso_sample,
      toLocaleString = locale_sample\<rparr>"

definition answers_200 :: "nat \<Rightarrow> json request \<Rightarrow> axios_result" where
  "answers_200 k rq = Resolved \<lparr>rs_status = 200, rs_statusText = ''OK''\<rparr>"

definition answers_500 :: "nat \<Rightarrow> json request \<Rightarrow> axios_result" where
  "answers_500 k rq = Resolved \<lparr>rs_status = 500, rs_statusText = ''Internal Server Error''\<rparr>"

definition times_out :: "nat \<Rightarrow> json request \<Rightarrow> axios_result" where
  "times_out k rq = Rejected None ''timeout of 3000ms exceeded''"


definition world0 :: "json world" where
  "world0 = \<lparr>readings = 0, sent = []\<rparr>"

text \<open>
  Scenario A with Basic credentials whose user name starts with the euro sign
  (U+20AC), and Scenario D without a query string and with a blank parameter name.
\<close>

definition wide_credentials :: testcase where
  "wide_credentials =
     scenario_A\<lparr>tc_authType := ''Basic'',
                tc_auth := no_auth\<lparr>username := [CHR 0xE2, CHR 0x82, CHR 0xAC] @ ''uro'',
                                   password := ''secret''\<rparr>\<rparr>"


text \<open>
  A test case with a header name that \<open>XMLHttpRequest\<close> refuses and a name with
  reserved characters, a transport that rejects such a request with the message of
  the browser, the Outcome of that execution, and an Outcome whose name and message
  have white space around them.
\<close>

definition header_case :: testcase where
  \<open>header_case =
     scenario_A\<lparr>tc_caseName := ''Tom's <GET> & "list"'', tc_headers := [(''a<b'', ''1'')]\<rparr>\<close>

definition refuses_header :: "nat \<Rightarrow> json request \<Rightarrow> axios_result" where
  "refuses_header k rq =
     (if rq_headers rq ''a<b'' \<noteq> None
      then Rejected None ''Failed to execute 'setRequestHeader' on 'XMLHttpRequest': 'a<b' is not a valid HTTP header field name.''
      else answers_200 k rq)"

definition header_error :: outcome where
  \<open>header_error =
     \<lparr>caseId = ''a'', caseName = ''Tom's <GET> & "list"'', ok = False, status = None,
      statusText = None, timeMs = Some 3000, expectedStatus = Some 200, warning = None,
      executedAt = ''1970-01-01T00:00:06.000Z'',
      error = Some ''Failed to execute 'setRequestHeader' on 'XMLHttpRequest': 'a<b' is not a valid HTTP header field name.''\<rparr>\<close>

definition padded_error :: outcome where
  "padded_error =
     \<lparr>caseId = ''p'', caseName = ''  padded name  '', ok = False, status = None,
      statusText = None, timeMs = Some 0, expectedStatus = None, warning = None,
      executedAt = ''1970-01-01T00:00:06.000Z'',
      error = Some ''  Network Error  ''\<rparr>"

text \<open>
  A \<open>meta\<close> argument with \<open>executedAt\<close>, and other surroundings with the same
  locale: no \<open>FormData\<close>, a transport that times out, and a clock that starts
  thirty seconds later and advances by seven milliseconds.
\<close>

definition meta_sample :: meta where
  "meta_sample = \<lparr>m_executedAt = ''1970-01-01T00:00:09.000Z''\<rparr>"

definition env_later :: "json env" where
  "env_later =
     \<lparr>JSON_parse = parse_sample, hasFormData = False, axios = times_out,
      Date_now = (\<lambda>k. 30000 + 7 * int k), toISOString = iso_sample,
      toLocaleString = locale_sample\<rparr>"

section \<open>The verdict rule of the specification\<close>


section \<open>Reading an attribute of the report\<close>

text \<open>
  \<open>after p s\<close> is what follows the first occurrence of \<open>p\<close> in \<open>s\<close>, and
  \<open>attribute name xml\<close> the value of the first attribute \<open>name="..."\<close> of the
  document; \<open>read_nat\<close> reads decimal notation.
\<close>

fun after :: "string \<Rightarrow> string \<Rightarrow> string option" where
  "after p [] = (if p = [] then Some [] else None)"
| "after p (c # cs) =
     (if prefix p (c # cs) then Some (drop (length p) (c # cs)) else after p cs)"

definition attribute :: "string \<Rightarrow> string \<Rightarrow> string option" where
  \<open>attribute name xml =
     map_option (takeWhile (\<lambda>c. c \<noteq> CHR ''"'')) (after ('' '' @ name @ ''="'') xml)\<close>

definition digit_value :: "char \<Rightarrow> nat" where
  "digit_value c = of_char c - 48"

definition read_nat :: "string \<Rightarrow> nat" where
  "read_nat s = foldl (\<lambda>n c. 10 * n + digit_value c) 0 s"

section \<open>Blank strings\<close>

text \<open>A string is blank when it consists of white space only; the empty string is.\<close>

definition blank :: "string \<Rightarrow> bool" where
  "blank s \<longleftrightarrow> (\<exists>ws. set ws \<subseteq> set whitespace \<and> s = concat ws)"

section \<open>Properties of \<open>trim\<close>\<close>

lemma blank_Nil: "blank []"
  unfolding blank_def by (rule exI [where x = "[]"]) simp

lemma blank_append: "blank a \<Longrightarrow> blank b \<Longrightarrow> blank (a @ b)"
proof -
  assume "blank a" and "blank b"
  then obtain wa wb where "set wa \<subseteq> set whitespace" "a = concat wa"
    "set wb \<subseteq> set whitespace" "b = concat wb"
    unfolding blank_def by blast
  then have "set (wa @ wb) \<subseteq> set whitespace \<and> a @ b = concat (wa @ wb)" by simp
  then show ?thesis unfolding blank_def by blast
qed

lemma blank_whitespace: "w \<in> set whitespace \<Longrightarrow> blank w"
  unfolding blank_def by (rule exI [where x = "[w]"]) simp

lemma whitespace_prefix_free:
  "\<forall>w \<in> set whitespace. \<forall>w' \<in> set whitespace. prefix w w' \<longrightarrow> w = w'"
  by (simp add: whitespace_def)

lemma trimStart_decomp:
  "(\<exists>a. blank a \<and> s = a @ trimStart s) \<and> find (\<lambda>w. prefix w (trimStart s)) whitespace = None"
proof (induction s rule: trimStart.induct)
  case (1 s)
  show ?case
  proof (cases "find (\<lambda>w. prefix w s) whitespace")
    case None
    then have "trimStart s = s" by (subst trimStart.simps) simp
    with None blank_Nil show ?thesis by auto
  next
    case (Some w)
    then have w: "w \<in> set whitespace" "prefix w s"
      by (auto simp: find_Some_iff)
    then have s: "s = w @ drop (length w) s"
      by (auto simp: prefix_def)
    have t: "trimStart s = trimStart (drop (length w) s)"
      using Some by (subst trimStart.simps) simp
    have ih: "\<exists>a. blank a \<and> drop (length w) s = a @ trimStart (drop (length w) s)"
      and n: "find (\<lambda>v. prefix v (trimStart (drop (length w) s))) whitespace = None"
      using 1 [OF Some] by simp_all
    from ih obtain a where a: "blank a" "drop (length w) s = a @ trimStart (drop (length w) s)"
      by auto
    have "blank (w @ a)" using w(1) a(1) by (simp add: blank_whitespace blank_append)
    moreover have "s = (w @ a) @ trimStart s"
      using s a(2) t by simp
    ultimately show ?thesis using n t by metis
  qed
qed

lemma trimEnd_decomp:
  "(\<exists>b. blank b \<and> s = trimEnd s @ b) \<and> find (\<lambda>w. suffix w (trimEnd s)) whitespace = None"
proof (induction s rule: trimEnd.induct)
  case (1 s)
  show ?case
  proof (cases "find (\<lambda>w. suffix w s) whitespace")
    case None
    then have "trimEnd s = s" by (subst trimEnd.simps) simp
    with None blank_Nil show ?thesis by auto
  next
    case (Some w)
    then have w: "w \<in> set whitespace" "suffix w s"
      by (auto simp: find_Some_iff)
    then have s: "s = take (length s - length w) s @ w"
      by (auto simp: suffix_def)
    have t: "trimEnd s = trimEnd (take (length s - length w) s)"
      using Some by (subst trimEnd.simps) simp
    have ih: "\<exists>b. blank b \<and>
        take (length s - length w) s = trimEnd (take (length s - length w) s) @ b"
      and n: "find (\<lambda>v. suffix v (trimEnd (take (length s - length w) s))) whitespace = None"
      using 1 [OF Some] by simp_all
    from ih obtain b where b: "blank b"
        "take (length s - length w) s = trimEnd (take (length s - length w) s) @ b"
      by auto
    have "blank (b @ w)" using w(1) b(1) by (simp add: blank_whitespace blank_append)
    moreover have "s = trimEnd s @ (b @ w)"
      using s b(2) t by (metis append.assoc)
    ultimately show ?thesis using n t by metis
  qed
qed

lemma trimEnd_keeps_start:
  assumes "find (\<lambda>w. prefix w s) whitespace = None"
  shows "find (\<lambda>w. prefix w (trimEnd s)) whitespace = None"
proof -
  obtain b where "s = trimEnd s @ b" using trimEnd_decomp [of s] by blast
  then have "prefix (trimEnd s) s" by (metis prefixI)
  then have "\<And>w. prefix w (trimEnd s) \<Longrightarrow> prefix w s" by (rule prefix_order.trans [rotated])
  with assms show ?thesis by (auto simp: find_None_iff)
qed

text \<open>
  \<open>trim s\<close> is \<open>s\<close> without white space before and after it, and has white space
  at neither end.
\<close>

lemma trim_decomp:
  "(\<exists>a b. blank a \<and> blank b \<and> s = a @ trim s @ b)
   \<and> find (\<lambda>w. prefix w (trim s)) whitespace = None
   \<and> find (\<lambda>w. suffix w (trim s)) whitespace = None"
proof -
  obtain a where a: "blank a" "s = a @ trimStart s"
    and na: "find (\<lambda>w. prefix w (trimStart s)) whitespace = None"
    using trimStart_decomp [of s] by blast
  obtain b where b: "blank b" "trimStart s = trimEnd (trimStart s) @ b"
    and nb: "find (\<lambda>w. suffix w (trimEnd (trimStart s))) whitespace = None"
    using trimEnd_decomp [of "trimStart s"] by blast
  have "s = a @ trim s @ b" using a(2) b(2) unfolding trim_def by simp
  with a(1) b(1) have "\<exists>a b. blank a \<and> blank b \<and> s = a @ trim s @ b" by blast
  moreover have "find (\<lambda>w. prefix w (trim s)) whitespace = None"
    unfolding trim_def using na by (rule trimEnd_keeps_start)
  ultimately show ?thesis using nb unfolding trim_def by blast
qed

lemma trimStart_blank: "blank s \<Longrightarrow> trimStart s = []"
proof -
  assume "blank s"
  then obtain ws where "set ws \<subseteq> set whitespace" "s = concat ws"
    unfolding blank_def by blast
  then show ?thesis
  proof (induction ws arbitrary: s)
    case Nil
    then show ?case by (subst trimStart.simps) (simp add: whitespace_def)
  next
    case (Cons w ws)
    then have w: "w \<in> set whitespace" and p: "prefix w s" by auto
    then have "find (\<lambda>w. prefix w s) whitespace \<noteq> None"
      by (auto simp: find_None_iff)
    then obtain w' where f: "find (\<lambda>w. prefix w s) whitespace = Some w'" by blast
    then have w': "w' \<in> set whitespace" "prefix w' s" by (auto simp: find_Some_iff)
    from p w'(2) have "prefix w w' \<or> prefix w' w" by (rule prefix_same_cases)
    with w w'(1) whitespace_prefix_free have "w' = w" by blast
    with f have "trimStart s = trimStart (drop (length w) s)"
      by (subst trimStart.simps) simp
    also have "drop (length w) s = concat ws" using Cons.prems(2) by simp
    also have "trimStart (concat ws) = []" using Cons.IH Cons.prems(1) by simp
    finally show ?case .
  qed
qed

lemma trimEnd_Nil: "trimEnd [] = []"
  by (subst trimEnd.simps) (simp add: whitespace_def)

text \<open>A string is trimmed to the empty string exactly when it is empty or blank.\<close>

lemma trim_empty_iff: "trim s = [] \<longleftrightarrow> blank s"
proof
  assume "trim s = []"
  moreover obtain a b where "blank a" "blank b" "s = a @ trim s @ b"
    using trim_decomp [of s] by blast
  ultimately show "blank s" by (simp add: blank_append)
next
  assume "blank s"
  then show "trim s = []" by (simp add: trim_def trimStart_blank trimEnd_Nil)
qed

text \<open>Trimming what is trimmed changes nothing.\<close>

lemma trimStart_id: "find (\<lambda>w. prefix w s) whitespace = None \<Longrightarrow> trimStart s = s"
  by (subst trimStart.simps) simp

lemma trimEnd_id: "find (\<lambda>w. suffix w s) whitespace = None \<Longrightarrow> trimEnd s = s"
  by (subst trimEnd.simps) simp

lemma trim_idem: "trim (trim s) = trim s"
proof -
  have "trimStart (trim s) = trim s" and "trimEnd (trim s) = trim s"
    using trim_decomp [of s] by (simp_all add: trimStart_id trimEnd_id)
  then show ?thesis by (simp add: trim_def [of "trim s"])
qed

section \<open>The scenarios, executed\<close>

text \<open>
  The scenarios of the specification in the sample surroundings: what
  \<open>runTestCase\<close> returns and the request it sends.
\<close>

lemma toUpperCase_GET: "toUpperCase ''GET'' = ''GET''"
  by (simp add: toUpperCase_def lower_letters_def upper_letters_def)

lemma trim_sample_urls:
  "trim ''https://api.example.com/ok'' = ''https://api.example.com/ok''"
  "trim ''https://x.com/y?z=1'' = ''https://x.com/y?z=1''"
  "trim ''token'' = ''token''"
  "trim ''https://api.example.com/slow'' = ''https://api.example.com/slow''"
  by code_simp+

lemma scenario_A_run:
  "runTestCase (env_sample answers_200) scenario_A world0 =
     (Inr \<lparr>caseId = ''a'', caseName = ''Scenario A'', ok = True, status = Some 200,
           statusText = Some ''OK'', timeMs = Some 3000, expectedStatus = Some 200,
           warning = None, executedAt = ''1970-01-01T00:00:06.000Z'', error = None\<rparr>,
      \<lparr>readings = 3,
       sent = [\<lparr>rq_method = ''GET'', rq_url = ''https://api.example.com/ok'',
                rq_headers = Map.empty, rq_timeout = None, rq_data = None\<rparr>]\<rparr>)"
  by (simp add: runTestCase_def scenario_A_def env_sample_def answers_200_def world0_def
        finalUrlOf_def ensureTrimmed_def trim_sample_urls buildBody_def toUpperCase_GET
        no_body_def buildHeaders_def objectOf_def no_auth_def timeoutOf_def asNumber_def
        iso_sample_def digit_def Let_def)






lemma trim_sample_more:
  "trim ''https://api.example.com/items'' = ''https://api.example.com/items''"
  "trim ''https://api.example.com/x'' = ''https://api.example.com/x''"
  "trim ''{not json}'' = ''{not json}''"
  by code_simp+

lemma toUpperCase_POST: "toUpperCase ''POST'' = ''POST''"
  by (simp add: toUpperCase_def lower_letters_def upper_letters_def)

lemma scenario_B_run:
  "runTestCase (env_sample answers_200) scenario_B world0 =
     (Inr \<lparr>caseId = ''b'', caseName = ''Scenario B'', ok = True, status = Some 200,
           statusText = Some ''OK'', timeMs = Some 3000, expectedStatus = Some 200,
           warning = Some ''Raw body is not valid JSON; sending as text.'',
           executedAt = ''1970-01-01T00:00:06.000Z'', error = None\<rparr>,
      \<lparr>readings = 3,
       sent = [\<lparr>rq_method = ''POST'', rq_url = ''https://api.example.com/items'',
                rq_headers = Map.empty, rq_timeout = None,
                rq_data = Some (Text ''{not json}'')\<rparr>]\<rparr>)"
  by (simp add: runTestCase_def scenario_B_def env_sample_def answers_200_def world0_def
        finalUrlOf_def ensureTrimmed_def trim_sample_more buildBody_def toUpperCase_POST
        parse_sample_def buildHeaders_def objectOf_def no_auth_def timeoutOf_def asNumber_def
        iso_sample_def digit_def Let_def)

lemma scenario_C_run:
  "runTestCase (env_sample answers_500) scenario_C world0 =
     (Inr \<lparr>caseId = ''c'', caseName = ''Scenario C'', ok = False, status = Some 500,
           statusText = Some ''Internal Server Error'', timeMs = Some 3000,
           expectedStatus = Some 404, warning = None,
           executedAt = ''1970-01-01T00:00:06.000Z'', error = None\<rparr>,
      \<lparr>readings = 3,
       sent = [\<lparr>rq_method = ''GET'', rq_url = ''https://api.example.com/x'',
                rq_headers = Map.empty, rq_timeout = None, rq_data = None\<rparr>]\<rparr>)"
  by (simp add: runTestCase_def scenario_C_def env_sample_def answers_500_def world0_def
        finalUrlOf_def ensureTrimmed_def trim_sample_more buildBody_def toUpperCase_GET
        no_body_def buildHeaders_def objectOf_def no_auth_def timeoutOf_def asNumber_def
        iso_sample_def digit_def Let_def)


lemma header_case_run:
  "fst (runTestCase (env_sample refuses_header) header_case world0) = Inr header_error"
  by (simp add: runTestCase_def header_case_def header_error_def scenario_A_def env_sample_def
        refuses_header_def world0_def finalUrlOf_def ensureTrimmed_def trim_sample_urls
        buildBody_def toUpperCase_GET no_body_def buildHeaders_def objectOf_def no_auth_def
        timeoutOf_def asNumber_def iso_sample_def digit_def Let_def)

section \<open>Properties of the request body\<close>

text \<open>
  C4.  For every test case whose method is \<open>GET\<close>, the built body is empty: no
  data, not form data, no warning, whatever \<open>bodyType\<close>, \<open>rawBody\<close> and \<open>formData\<close>
  hold, whatever \<open>JSON.parse\<close> would return and whether \<open>FormData\<close> exists; and
  the request that \<open>runTestCase\<close> sends for it has no \<open>data\<close>.
\<close>

theorem buildBody_GET_empty:
  "tc_method testCase = ''GET'' \<Longrightarrow>
   buildBody parse formDataExists testCase
     = \<lparr>data = None, isFormData = False, bodyWarning = None\<rparr>
   \<and> (runTestCase env testCase w = (Inr out, w') \<longrightarrow> rq_data (last (sent w')) = None)"
proof
  assume g: "tc_method testCase = ''GET''"
  then show b: "buildBody parse formDataExists testCase
     = \<lparr>data = None, isFormData = False, bodyWarning = None\<rparr>"
    for parse :: "string \<Rightarrow> 'x option" and formDataExists
    by (simp add: buildBody_def toUpperCase_GET no_body_def)
  show "runTestCase env testCase w = (Inr out, w') \<longrightarrow> rq_data (last (sent w')) = None"
    by (auto simp: runTestCase_def Let_def b split: sum.splits axios_result.splits)
qed

theorem buildBody_GET_empty_witness:
  "tc_method scenario_A = ''GET'' \<and> tc_bodyType scenario_A = ''raw'' \<and>
   tc_rawBody scenario_A = ''{\"k\": 1}'' \<and> tc_formData scenario_A = [(''k'', ''v'')] \<and>
   buildBody parse_sample True scenario_A
     = \<lparr>data = None, isFormData = False, bodyWarning = None\<rparr> \<and>
   map rq_data (sent (snd (runTestCase (env_sample answers_200) scenario_A world0))) = [None]"
  using buildBody_GET_empty [of scenario_A parse_sample True "env_sample answers_200" world0]
    scenario_A_run
  by (simp add: scenario_A_def)




section \<open>Properties of the test runner\<close>

text \<open>
  What \<open>asNumber\<close> makes of a property: \<open>undefined\<close> and values that are not finite
  become \<open>null\<close>, and \<open>null\<close> becomes \<open>0\<close>, since \<open>Number(null)\<close> is \<open>0\<close>.
\<close>

lemma asNumber_values:
  "asNumber Undefined = None"
  "asNumber Null = Some 0"
  "asNumber (Num (Fin x)) = Some x"
  "asNumber (Num NaN) = None"
  "asNumber (Num PosInfinity) = None"
  "asNumber (Num NegInfinity) = None"
  by (simp_all add: asNumber_def)






lemma buildHeaders_throws_iff:
  "buildHeaders testCase formEncoded = Inl e \<longleftrightarrow>
     tc_authType testCase = ''Basic'' \<and> username (tc_auth testCase) \<noteq> []
     \<and> password (tc_auth testCase) \<noteq> []
     \<and> latin1 (username (tc_auth testCase) @ '':'' @ password (tc_auth testCase)) = None
     \<and> e = InvalidCharacterError"
  by (auto simp: buildHeaders_def Let_def btoa_def split: sum.splits option.splits if_splits)

text \<open>With an empty or blank URL \<open>runTestCase\<close> throws and sends nothing.\<close>

lemma runTestCase_blank_url:
  "blank (tc_url testCase) \<Longrightarrow>
   runTestCase env testCase w = (Inl (Error ''Missing URL for test case.''), w)"
  by (simp add: runTestCase_def finalUrlOf_def ensureTrimmed_def trim_empty_iff)

text \<open>
  With any other URL, unless \<open>btoa\<close> refuses the Basic credentials, it returns
  an Outcome after three readings of the clock and one request.
\<close>

lemma runTestCase_one_attempt:
  assumes "\<not> blank (tc_url testCase)"
    and "\<not> (tc_authType testCase = ''Basic'' \<and> username (tc_auth testCase) \<noteq> []
           \<and> password (tc_auth testCase) \<noteq> []
           \<and> latin1 (username (tc_auth testCase) @ '':'' @ password (tc_auth testCase)) = None)"
  shows "\<exists>out rq. runTestCase env testCase w
           = (Inr out, \<lparr>readings = readings w + 3, sent = sent w @ [rq]\<rparr>)"
proof -
  have "\<exists>u. finalUrlOf testCase = Inr u"
    using assms(1) by (simp add: finalUrlOf_def ensureTrimmed_def Let_def trim_empty_iff)
  then obtain u where u: "finalUrlOf testCase = Inr u" ..
  have "\<not> (\<exists>e. buildHeaders testCase
           (isFormData (buildBody (JSON_parse env) (hasFormData env) testCase)) = Inl e)"
    using assms(2) by (simp add: buildHeaders_throws_iff)
  then obtain hs where hs: "buildHeaders testCase
           (isFormData (buildBody (JSON_parse env) (hasFormData env) testCase)) = Inr hs"
    by (cases "buildHeaders testCase
           (isFormData (buildBody (JSON_parse env) (hasFormData env) testCase))") auto
  show ?thesis
    using u hs
    by (auto simp: runTestCase_def Let_def split: axios_result.splits)
qed

text \<open>
  \<open>runTestCase\<close> throws exactly when the URL is blank or \<open>btoa\<close> refuses the Basic
  credentials.
\<close>

lemma runTestCase_throws_iff:
  "(\<exists>e. fst (runTestCase env testCase w) = Inl e) \<longleftrightarrow>
     blank (tc_url testCase)
     \<or> (tc_authType testCase = ''Basic'' \<and> username (tc_auth testCase) \<noteq> []
          \<and> password (tc_auth testCase) \<noteq> []
          \<and> latin1 (username (tc_auth testCase) @ '':'' @ password (tc_auth testCase)) = None)"
proof (cases "blank (tc_url testCase)")
  case True
  then show ?thesis by (simp add: runTestCase_blank_url)
next
  case False
  show ?thesis
  proof (cases "tc_authType testCase = ''Basic'' \<and> username (tc_auth testCase) \<noteq> []
          \<and> password (tc_auth testCase) \<noteq> []
          \<and> latin1 (username (tc_auth testCase) @ '':'' @ password (tc_auth testCase)) = None")
    case True
    then have "buildHeaders testCase
        (isFormData (buildBody (JSON_parse env) (hasFormData env) testCase))
          = Inl InvalidCharacterError"
      by (simp add: buildHeaders_throws_iff)
    moreover have "\<exists>u. finalUrlOf testCase = Inr u"
      using False by (simp add: finalUrlOf_def ensureTrimmed_def Let_def trim_empty_iff)
    ultimately have "fst (runTestCase env testCase w) = Inl InvalidCharacterError"
      by (auto simp: runTestCase_def Let_def)
    with True show ?thesis by blast
  next
    case nb: False
    obtain out rq where "runTestCase env testCase w
           = (Inr out, \<lparr>readings = readings w + 3, sent = sent w @ [rq]\<rparr>)"
      using runTestCase_one_attempt [OF False nb] by blast
    with False nb show ?thesis by simp
  qed
qed

text \<open>
  C7, at the failing input.  The URL of \<open>wide_credentials\<close> is not blank, yet
  \<open>runTestCase\<close> throws, in any surroundings: \<open>buildHeaders\<close> runs outside the
  \<open>try\<close> block and \<open>btoa\<close> throws on the euro sign of the user name.  No request
  is sent and no Outcome is returned.
\<close>

theorem runTestCase_wide_credentials:
  "tc_url wide_credentials = ''https://api.example.com/ok'' \<and>
   trim (tc_url wide_credentials) = ''https://api.example.com/ok'' \<and>
   runTestCase env wide_credentials w = (Inl InvalidCharacterError, w)"
proof -
  have l: "latin1 ([CHR 0xE2, CHR 0x82, CHR 0xAC] @ ''uro'' @ '':'' @ ''secret'') = None"
    by simp
  show ?thesis
    by (simp add: wide_credentials_def scenario_A_def runTestCase_def finalUrlOf_def
          ensureTrimmed_def trim_sample_urls buildHeaders_def no_auth_def btoa_def l)
qed

section \<open>Properties of the JUnit report\<close>

lemma digit_in_digits: "d < 10 \<Longrightarrow> digit d \<in> set ''0123456789''"
  unfolding digit_def by (rule nth_mem) simp

lemma show_nat_digits: "set (show_nat n) \<subseteq> set ''0123456789''"
proof (induction n rule: show_nat.induct)
  case (1 n)
  show ?case
  proof (cases "n < 10")
    case True
    then show ?thesis
      using digit_in_digits [of n] by (subst show_nat.simps) simp
  next
    case False
    have "n mod 10 < 10" by simp
    then have "digit (n mod 10) \<in> set ''0123456789''" by (rule digit_in_digits)
    with False 1 show ?thesis
      by (subst show_nat.simps) simp
  qed
qed

lemma digit_value_digit: "d < 10 \<Longrightarrow> digit_value (digit d) = d"
proof -
  assume "d < 10"
  then have "d \<in> {0, 1, 2, 3, 4, 5, 6, 7, 8, 9}" by auto
  then show ?thesis
    by (auto simp: digit_value_def digit_def)
qed

lemma read_nat_snoc: "read_nat (s @ [c]) = 10 * read_nat s + digit_value c"
  by (simp add: read_nat_def)

lemma read_show_nat: "read_nat (show_nat n) = n"
proof (induction n rule: show_nat.induct)
  case (1 n)
  show ?case
  proof (cases "n < 10")
    case True
    then show ?thesis
      by (subst show_nat.simps) (simp add: read_nat_def digit_value_digit)
  next
    case False
    with 1 have "read_nat (show_nat (n div 10)) = n div 10" by simp
    with False show ?thesis
      by (subst show_nat.simps) (simp add: read_nat_snoc digit_value_digit)
  qed
qed

lemma after_skip:
  assumes "p \<noteq> []" and "\<forall>c \<in> set ds. c \<noteq> hd p"
  shows "after p (ds @ rest) = after p rest"
  using assms(2)
proof (induction ds)
  case Nil
  show ?case by simp
next
  case (Cons d ds)
  from Cons.prems have "d \<noteq> hd p" by simp
  with assms(1) have "\<not> prefix p (d # ds @ rest)"
    by (cases p) auto
  with Cons show ?case by simp
qed

lemma takeWhile_digits:
  \<open>takeWhile (\<lambda>c. c \<noteq> CHR ''"'') (show_nat n @ CHR ''"'' # rest) = show_nat n\<close>
proof -
  have \<open>\<forall>c \<in> set (show_nat n). c \<noteq> CHR ''"''\<close>
    using show_nat_digits [of n] by auto
  then show ?thesis
    by simp
qed

lemma after_tests:
  \<open>after '' tests="'' (''<?xml version="1.0" encoding="UTF-8"?>\<newline><testsuite name="API Tests" tests="'' @ rest) = Some rest\<close>
  by simp

lemma after_failures:
  \<open>after '' failures="'' (''<?xml version="1.0" encoding="UTF-8"?>\<newline><testsuite name="API Tests" tests="''
      @ show_nat n @ ''" failures="'' @ rest) = Some rest\<close>
proof -
  have \<open>\<forall>c \<in> set (show_nat n). c \<noteq> hd '' failures="''\<close>
    using show_nat_digits [of n] by auto
  then have \<open>after '' failures="'' (show_nat n @ ''" failures="'' @ rest)
              = after '' failures="'' (''" failures="'' @ rest)\<close>
    by (intro after_skip) simp_all
  then show ?thesis by simp
qed

text \<open>
  C3.  For every list of test cases and every list of Outcomes, the \<open>tests\<close>
  attribute of the \<open>testsuite\<close> element of the report is the number of test cases
  and its \<open>failures\<close> attribute is the number of Outcomes with \<open>ok\<close> false, each in
  decimal notation; the number of Outcomes plays no part in the first and the number
  of test cases none in the second.
\<close>

theorem junit_counts:
  "attribute ''tests'' (generateJUnitReport testCases results)
     = Some (show_nat (length testCases)) \<and>
   attribute ''failures'' (generateJUnitReport testCases results)
     = Some (show_nat (length (filter (\<lambda>r. \<not> ok r) results))) \<and>
   map_option read_nat (attribute ''tests'' (generateJUnitReport testCases results))
     = Some (length testCases) \<and>
   map_option read_nat (attribute ''failures'' (generateJUnitReport testCases results))
     = Some (length (filter (\<lambda>r. \<not> ok r) results))"
proof -
  have t: "attribute ''tests'' (generateJUnitReport testCases results)
             = Some (show_nat (length testCases))"
    unfolding attribute_def generateJUnitReport_def Let_def
    using after_tests takeWhile_digits by simp
  have f: "attribute ''failures'' (generateJUnitReport testCases results)
             = Some (show_nat (length (filter (\<lambda>r. \<not> ok r) results)))"
    unfolding attribute_def generateJUnitReport_def Let_def
    using after_failures takeWhile_digits by simp
  show ?thesis
    by (simp add: t f read_show_nat)
qed

subsection \<open>Escaping\<close>

lemma replaceAll_Nil [simp]: "replaceAll c r [] = []"
  by (simp add: replaceAll_def)

lemma replaceAll_Cons [simp]:
  "replaceAll c r (x # xs) = (if x = c then r else [x]) @ replaceAll c r xs"
  by (simp add: replaceAll_def)

text \<open>What \<open>escapeXml\<close> returns has none of \<open><\<close>, \<open>>\<close>, the double and the single quote.\<close>

lemma escape_clean:
  \<open>set (replaceAll (CHR 0x27) ''&apos;''
          (replaceAll CHR ''"'' ''&quot;''
            (replaceAll CHR ''>'' ''&gt;''
              (replaceAll CHR ''<'' ''&lt;''
                (replaceAll CHR ''&'' ''&amp;'' str)))))
     \<inter> {CHR ''<'', CHR ''>'', CHR ''"'', CHR 0x27} = {}\<close>
  by (induction str) auto

lemma escapeXml_clean:
  \<open>set (escapeXml v) \<inter> {CHR ''<'', CHR ''>'', CHR ''"'', CHR 0x27} = {}\<close>
  unfolding escapeXml_def Let_def by (rule escape_clean)

text \<open>
  Both escaping functions trim first: they return for a string what they return for
  the trimmed string; and \<open>escapeHtml\<close> leaves none of the four characters either.
\<close>

lemma escapeXml_trim: "escapeXml v = escapeXml (trim v)"
  by (simp add: escapeXml_def ensureTrimmed_def trim_idem)

lemma escapeHtml_trim: "escapeHtml v = escapeHtml (trim v)"
  by (simp add: escapeHtml_def ensureTrimmed_def trim_idem)

lemma escapeHtml_clean:
  \<open>set (escapeHtml v) \<inter> {CHR ''<'', CHR ''>'', CHR ''"'', CHR 0x27} = {}\<close>
proof -
  have \<open>set (replaceAll (CHR 0x27) ''&#39;''
          (replaceAll CHR ''"'' ''&quot;''
            (replaceAll CHR ''>'' ''&gt;''
              (replaceAll CHR ''<'' ''&lt;''
                (replaceAll CHR ''&'' ''&amp;'' str)))))
     \<inter> {CHR ''<'', CHR ''>'', CHR ''"'', CHR 0x27} = {}\<close> for str
    by (induction str) auto
  then show ?thesis by (simp add: escapeHtml_def Let_def)
qed

text \<open>
  C2, at the failing input.  The test case \<open>header_case\<close> has the name
  \<open>Tom's <GET> & "list"\<close> and a header named \<open>a<b\<close>; the browser refuses the header,
  and the Outcome \<open>header_error\<close> that \<open>runTestCase\<close> returns (\<open>header_case_run\<close>)
  carries its message, which quotes the header name.  In the report the name of the
  test case is escaped, and the message stands in the body of \<open><failure>\<close> as it is,
  with its \<open><\<close> and its single quotes: \<open>result.error\<close> is interpolated without
  \<open>escapeXml\<close>.
\<close>

theorem junit_failure_body_not_escaped:
  \<open>generateJUnitReport [header_case] [header_error] =
   ''<?xml version="1.0" encoding="UTF-8"?>\<newline><testsuite name="API Tests" tests="1" failures="1">\<newline>    <testcase classname="API" name="Tom&apos;s &lt;GET&gt; &amp; &quot;list&quot;" time="3">\<newline>      <failure message="Expected 200, got error">Failed to execute 'setRequestHeader' on 'XMLHttpRequest': 'a<b' is not a valid HTTP header field name.</failure>\<newline>    </testcase>\<newline></testsuite>''\<close>
  by code_simp


section \<open>Properties of the duration format\<close>

























text \<open>
  Some durations, among them \<open>1005\<close> (the double nearest to \<open>1.005\<close> is below it)
  and \<open>1125\<close> (\<open>1.125\<close> is a double, and the tie goes up).
\<close>

lemma formatDuration_samples:
  "formatDuration None = ''-''"
  "formatDuration (Some 999) = ''999 ms''"
  "formatDuration (Some 1000) = ''1.00 s''"
  "formatDuration (Some 1005) = ''1.00 s''"
  "formatDuration (Some 1125) = ''1.13 s''"
  "formatDuration (Some 1500) = ''1.50 s''"
  "formatDuration (Some 8345) = ''8.35 s''"
  "formatDuration (Some 9999) = ''10.00 s''"
  "formatDuration (Some 10000) = ''10 s''"
  "formatDuration (Some 12500) = ''13 s''"
  by code_simp+

section \<open>Properties of the HTML preview\<close>

text \<open>
  C9.  When \<open>meta.executedAt\<close> is supplied (and not empty), the document depends
  on the test cases, the Outcomes, \<open>meta\<close> and the locale of the browser only: two
  calls with these the same return the same string, whatever the clock shows, whatever
  has happened before and whatever the other surroundings are, and the call does not
  read the clock.
\<close>

theorem generateAllureHtml_deterministic:
  assumes "m_executedAt meta \<noteq> []"
    and "toLocaleString env1 = toLocaleString env2"
  shows "fst (generateAllureHtml env1 testCases results meta w1)
           = fst (generateAllureHtml env2 testCases results meta w2)
       \<and> snd (generateAllureHtml env1 testCases results meta w1) = w1"
proof -
  have d: "formatDateTime env1 = formatDateTime env2"
    using assms(2) by (simp add: formatDateTime_def fun_eq_iff)
  have c: "caseCard env1 = caseCard env2"
    by (simp add: caseCard_def d fun_eq_iff)
  show ?thesis
    using assms(1) by (simp add: generateAllureHtml_def Let_def d c)
qed

theorem generateAllureHtml_deterministic_witness:
  "m_executedAt meta_sample \<noteq> [] \<and>
   toLocaleString (env_sample answers_200) = toLocaleString env_later \<and>
   fst (generateAllureHtml (env_sample answers_200) [header_case] [header_error, padded_error]
          meta_sample world0)
     = fst (generateAllureHtml env_later [header_case] [header_error, padded_error]
          meta_sample (world0\<lparr>readings := 5\<rparr>)) \<and>
   snd (generateAllureHtml (env_sample answers_200) [header_case] [header_error, padded_error]
          meta_sample world0) = world0"
  using generateAllureHtml_deterministic [of meta_sample "env_sample answers_200" env_later
      "[header_case]" "[header_error, padded_error]" world0 "world0\<lparr>readings := 5\<rparr>"]
  by (simp add: meta_sample_def env_sample_def env_later_def)

text \<open>
  Without \<open>meta.executedAt\<close> the document shows the reading of the clock, so two
  calls at different readings differ.
\<close>

lemma generateAllureHtml_reads_clock:
  "fst (generateAllureHtml (env_sample answers_200) [] [] \<lparr>m_executedAt = []\<rparr> world0)
     \<noteq> fst (generateAllureHtml (env_sample answers_200) [] [] \<lparr>m_executedAt = []\<rparr>
            (world0\<lparr>readings := 1\<rparr>))"
proof -
  have a: "escapeHtml ''1970-01-01 00:00:00'' = ''1970-01-01 00:00:00''"
     "escapeHtml ''1970-01-01 00:00:03'' = ''1970-01-01 00:00:03''"
    by code_simp+
  show ?thesis
    by (simp add: generateAllureHtml_def Let_def env_sample_def world0_def formatDateTime_def
          iso_sample_def digit_def locale_sample_def a)
qed


text \<open>
  The document is the head of the page, the escaped "generated at" time and a rest
  that does not depend on \<open>meta\<close> or on the clock: calls that differ in the
  "generated at" time differ in that field only.
\<close>

lemma generateAllureHtml_generated_at:
  "\<exists>post. \<forall>meta w.
     fst (generateAllureHtml env testCases results meta w)
       = page_0
         @ escapeHtml (formatDateTime env
             (if m_executedAt meta \<noteq> [] then m_executedAt meta
              else toISOString env (Date_now env (readings w))))
         @ post"
  by (rule exI [where x = "drop (length (page_0 @ escapeHtml (formatDateTime env ''x'')))
        (fst (generateAllureHtml env testCases results \<lparr>m_executedAt = ''x''\<rparr> \<lparr>readings = 0, sent = []\<rparr>))"])
     (simp add: generateAllureHtml_def Let_def)

end
